theory Spec2Isabelle
  imports Complex_Main
begin

section \<open>JSON values and the JavaScript operations the handlers apply to them\<close>

text \<open>
  The request bodies of \<^verbatim>\<open>app.js\<close> are produced by \<^verbatim>\<open>express.json\<close>, so every value
  a handler reads from \<^verbatim>\<open>req.body\<close> is a parsed JSON value. A property read that finds
  nothing gives \<^verbatim>\<open>undefined\<close>, which is not a JSON value: it is \<open>None\<close> of
  \<open>json option\<close>.

  A \<open>char\<close> stands for one UTF-16 code unit; the source only distinguishes code units
  inside the ASCII range. A JSON number is modelled by its integer value (exact for the
  integers JavaScript reads and prints exactly). \<open>JObj\<close> holds the properties of the
  parsed object, whose keys are distinct; a lookup takes the first entry of a key.
\<close>

datatype json =
    JNull
  | JBool bool
  | JNum int
  | JStr string
  | JArr "json list"
  | JObj "(string \<times> json) list"

text \<open>Truthiness, as used by \<^verbatim>\<open>!x\<close> and \<^verbatim>\<open>x || y\<close>.\<close>

fun truthy :: "json option \<Rightarrow> bool" where
  "truthy None = False"
| "truthy (Some JNull) = False"
| "truthy (Some (JBool b)) = b"
| "truthy (Some (JNum n)) = (n \<noteq> 0)"
| "truthy (Some (JStr s)) = (s \<noteq> [])"
| "truthy (Some (JArr xs)) = True"
| "truthy (Some (JObj kvs)) = True"

text \<open>\<^verbatim>\<open>a ?? b\<close>: \<^verbatim>\<open>b\<close> when \<^verbatim>\<open>a\<close> is \<^verbatim>\<open>undefined\<close> or \<^verbatim>\<open>null\<close>.\<close>

fun nullish_coalesce :: "json option \<Rightarrow> json \<Rightarrow> json" where
  "nullish_coalesce None d = d"
| "nullish_coalesce (Some JNull) d = d"
| "nullish_coalesce (Some v) d = v"

text \<open>
  Reading one of the properties \<^verbatim>\<open>user_id\<close>, \<^verbatim>\<open>password\<close>, \<^verbatim>\<open>nickname\<close>,
  \<^verbatim>\<open>comment\<close> of a body: an own property of an object, \<^verbatim>\<open>undefined\<close> on an array or
  a primitive (no prototype has these names).
\<close>

fun js_get :: "json \<Rightarrow> string \<Rightarrow> json option" where
  "js_get (JObj kvs) k = map_of kvs k"
| "js_get v k = None"

text \<open>\<^verbatim>\<open>Object.prototype.hasOwnProperty.call(body, k)\<close> for the same names.\<close>

fun hasOwnProperty :: "json \<Rightarrow> string \<Rightarrow> bool" where
  "hasOwnProperty (JObj kvs) k = (map_of kvs k \<noteq> None)"
| "hasOwnProperty v k = False"

text \<open>\<^verbatim>\<open>req.body || {}\<close>\<close>

definition body_or_empty :: "json option \<Rightarrow> json" where
  "body_or_empty body = (case body of Some b \<Rightarrow> if truthy (Some b) then b else JObj [] | None \<Rightarrow> JObj [])"

text \<open>
  \<^verbatim>\<open>x.length\<close> on a truthy value: the length of a string or an array, the own property
  \<^verbatim>\<open>length\<close> of an object, \<^verbatim>\<open>undefined\<close> on a number or a boolean. (On \<^verbatim>\<open>null\<close> the
  read would raise; the handler never reads it there.)
\<close>

fun js_length :: "json \<Rightarrow> json option" where
  "js_length (JStr s) = Some (JNum (int (length s)))"
| "js_length (JArr xs) = Some (JNum (int (length xs)))"
| "js_length (JObj kvs) = map_of kvs ''length''"
| "js_length v = None"

text \<open>Decimal digits of a natural number, for \<^verbatim>\<open>String(n)\<close>.\<close>

fun nat_digits :: "nat \<Rightarrow> string" where
  "nat_digits n =
     (if n < 10 then [char_of (48 + n)]
      else nat_digits (n div 10) @ [char_of (48 + n mod 10)])"

declare nat_digits.simps [simp del]

text \<open>
  \<^verbatim>\<open>String(v)\<close>, which \<^verbatim>\<open>RegExp.prototype.test\<close> applies to its argument; \<open>None\<close> is a
  raised \<^verbatim>\<open>TypeError\<close>. An array is joined with commas, \<^verbatim>\<open>null\<close> elements giving the
  empty string. An object parsed from JSON gives \<^verbatim>\<open>[object Object]\<close>, unless it has an
  own property \<^verbatim>\<open>toString\<close>: that one is never callable, \<^verbatim>\<open>valueOf\<close> does not give a
  primitive, and the conversion raises.
\<close>

fun to_string :: "json \<Rightarrow> string option"
  and join_elems :: "json list \<Rightarrow> string option"
where
  "to_string JNull = Some ''null''"
| "to_string (JBool b) = Some (if b then ''true'' else ''false'')"
| "to_string (JNum n) =
     Some (if n < 0 then CHR ''-'' # nat_digits (nat (- n)) else nat_digits (nat n))"
| "to_string (JStr s) = Some s"
| "to_string (JArr xs) = join_elems xs"
| "to_string (JObj kvs) =
     (if map_of kvs ''toString'' \<noteq> None then None else Some ''[object Object]'')"
| "join_elems [] = Some []"
| "join_elems (x # xs) =
     (case (if x = JNull then Some [] else to_string x) of
        None \<Rightarrow> None
      | Some s \<Rightarrow>
          (if xs = [] then Some s
           else (case join_elems xs of None \<Rightarrow> None | Some t \<Rightarrow> Some (s @ '','' @ t))))"

text \<open>
  Numbers as the relational operators see them. \<^verbatim>\<open>StringToNumber\<close> rounds to a
  double, so it is a parameter \<open>s2n\<close> of the model; the handlers reach it only through
  the \<^verbatim>\<open>length\<close> property of an object sent in place of a string.
\<close>

datatype jsnum = NaN | NegInf | Fin rat | PosInf

fun num_lt :: "jsnum \<Rightarrow> int \<Rightarrow> bool" where
  "num_lt NaN n = False"
| "num_lt NegInf n = True"
| "num_lt (Fin r) n = (r < of_int n)"
| "num_lt PosInf n = False"

fun num_gt :: "jsnum \<Rightarrow> int \<Rightarrow> bool" where
  "num_gt NaN n = False"
| "num_gt NegInf n = False"
| "num_gt (Fin r) n = (r > of_int n)"
| "num_gt PosInf n = True"

text \<open>\<^verbatim>\<open>ToNumber\<close> of an operand; \<open>None\<close> is a raised \<^verbatim>\<open>TypeError\<close>.\<close>

fun to_number :: "(string \<Rightarrow> jsnum) \<Rightarrow> json option \<Rightarrow> jsnum option" where
  "to_number s2n None = Some NaN"
| "to_number s2n (Some JNull) = Some (Fin 0)"
| "to_number s2n (Some (JBool b)) = Some (Fin (if b then 1 else 0))"
| "to_number s2n (Some (JNum n)) = Some (Fin (of_int n))"
| "to_number s2n (Some (JStr s)) = Some (s2n s)"
| "to_number s2n (Some v) = map_option s2n (to_string v)"

text \<open>\<^verbatim>\<open>x < n\<close> and \<^verbatim>\<open>x > n\<close> for a number literal \<^verbatim>\<open>n\<close>.\<close>

definition js_lt :: "(string \<Rightarrow> jsnum) \<Rightarrow> json option \<Rightarrow> int \<Rightarrow> bool option" where
  "js_lt s2n x n = map_option (\<lambda>d. num_lt d n) (to_number s2n x)"

definition js_gt :: "(string \<Rightarrow> jsnum) \<Rightarrow> json option \<Rightarrow> int \<Rightarrow> bool option" where
  "js_gt s2n x n = map_option (\<lambda>d. num_gt d n) (to_number s2n x)"

text \<open>\<^verbatim>\<open>a || b\<close> on conditions that may raise: \<^verbatim>\<open>b\<close> is evaluated only when \<^verbatim>\<open>a\<close> is false.\<close>

fun js_or :: "bool option \<Rightarrow> bool option \<Rightarrow> bool option" where
  "js_or None b = None"
| "js_or (Some True) b = Some True"
| "js_or (Some False) b = b"


section \<open>Validation\<close>

text \<open>
  The three regular expressions of the source. None has a flag, so \<^verbatim>\<open>^\<close> and \<^verbatim>\<open>$\<close> are
  the ends of the string, and a match is: every character in the class, the length in
  the range.
  \<^verbatim>\<open>isValidUserId = (s) => /^[A-Za-z0-9]{6,20}$/.test(s)\<close>,
  \<^verbatim>\<open>isValidPassword = (s) => /^[\x21-\x7E]{8,20}$/.test(s)\<close>,
  \<^verbatim>\<open>noCtrl = (s) => /^[^\x00-\x1F\x7F]*$/.test(s)\<close>.
  The first two are applied to a body value of any type, which \<^verbatim>\<open>test\<close> converts to a
  string; \<^verbatim>\<open>noCtrl\<close> is only called behind a \<^verbatim>\<open>typeof\<close> check, on strings.
\<close>

definition alnum_char :: "char \<Rightarrow> bool" where
  "alnum_char c =
     (let n = (of_char c :: nat)
      in (0x41 \<le> n \<and> n \<le> 0x5A) \<or> (0x61 \<le> n \<and> n \<le> 0x7A) \<or> (0x30 \<le> n \<and> n \<le> 0x39))"

definition visible_char :: "char \<Rightarrow> bool" where
  "visible_char c = (let n = (of_char c :: nat) in 0x21 \<le> n \<and> n \<le> 0x7E)"

definition ctrl_char :: "char \<Rightarrow> bool" where
  "ctrl_char c = (let n = (of_char c :: nat) in n \<le> 0x1F \<or> n = 0x7F)"

definition isValidUserId :: "json \<Rightarrow> bool option" where
  "isValidUserId v =
     map_option (\<lambda>s. 6 \<le> length s \<and> length s \<le> 20 \<and> list_all alnum_char s) (to_string v)"

definition isValidPassword :: "json \<Rightarrow> bool option" where
  "isValidPassword v =
     map_option (\<lambda>s. 8 \<le> length s \<and> length s \<le> 20 \<and> list_all visible_char s) (to_string v)"

definition noCtrl :: "string \<Rightarrow> bool" where
  "noCtrl s = list_all (\<lambda>c. \<not> ctrl_char c) s"

section \<open>The store\<close>

text \<open>
  \<^verbatim>\<open>const users = new Map(); // key: user_id -> { user_id, passwordHash, nickname?, comment? }\<close>
  A \<^verbatim>\<open>Map\<close> compares keys by value for strings and numbers, so the number
  \<^verbatim>\<open>123456\<close> and the string \<^verbatim>\<open>"123456"\<close> are two keys, as \<open>JNum\<close> and \<open>JStr\<close> are.
  The type of the password hash is a parameter. A field that is \<^verbatim>\<open>undefined\<close> is
  \<open>None\<close>; \<^verbatim>\<open>null\<close> is \<open>Some JNull\<close>.
\<close>

record 'h user =
  user_id :: json
  passwordHash :: 'h
  nickname :: "json option"
  comment :: "json option"

type_synonym 'h store = "json \<Rightarrow> 'h user option"

text \<open>
  What a handler does with a request: it sends a status and a JSON body, or it raises
  (the promise of the \<^verbatim>\<open>async\<close> handler is rejected and no response is sent by it).
\<close>

datatype outcome = Response nat json | Threw

section \<open>Basic authentication\<close>

text \<open>
  Header values are Latin-1 strings. Among them \<^verbatim>\<open>\s\<close> and \<^verbatim>\<open>trim\<close> take the same
  characters as white space: tab, line feed, vertical tab, form feed, carriage return,
  space and no-break space.
\<close>

definition is_space :: "char \<Rightarrow> bool" where
  "is_space c =
     (let n = (of_char c :: nat)
      in n = 0x09 \<or> n = 0x0A \<or> n = 0x0B \<or> n = 0x0C \<or> n = 0x0D \<or> n = 0x20 \<or> n = 0xA0)"

definition ascii_lower :: "char \<Rightarrow> char" where
  "ascii_lower c =
     (let n = (of_char c :: nat) in if 0x41 \<le> n \<and> n \<le> 0x5A then char_of (n + 0x20) else c)"

text \<open>\<^verbatim>\<open>/^Basic\s*/i.test(h)\<close>: the white space may be empty, the letters are of either case.\<close>

definition basic_prefix :: "string \<Rightarrow> bool" where
  "basic_prefix h = (map ascii_lower (take 5 h) = ''basic'')"

definition trim :: "string \<Rightarrow> string" where
  "trim s = rev (dropWhile is_space (rev (dropWhile is_space s)))"

text \<open>\<^verbatim>\<open>s.indexOf(c)\<close>, \<open>- 1\<close> when \<open>c\<close> does not occur.\<close>

definition indexOf :: "string \<Rightarrow> char \<Rightarrow> int" where
  "indexOf s c = (if c \<in> set s then int (length (takeWhile (\<lambda>x. x \<noteq> c) s)) else - 1)"

text \<open>
  \<open>decode\<close> is \<^verbatim>\<open>Buffer.from(b64, "base64").toString("utf8")\<close> of the Node library, a
  parameter of the model; \<open>None\<close> is the \<^verbatim>\<open>catch\<close> branch.
\<close>

definition parseBasicAuth :: "(string \<Rightarrow> string option) \<Rightarrow> string option \<Rightarrow> (string \<times> string) option" where
  "parseBasicAuth decode header =
     (let h = (case header of Some v \<Rightarrow> v | None \<Rightarrow> [])
      in if \<not> basic_prefix h then None
         else
           (let b64 = trim (dropWhile is_space (drop 5 h))
            in case decode b64 of
                 None \<Rightarrow> None
               | Some raw \<Rightarrow>
                   (let idx = indexOf raw CHR '':''
                    in if idx < 0 then None
                       else Some (take (nat idx) raw, drop (nat idx + 1) raw))))"

text \<open>
  \<open>compare\<close> is \<^verbatim>\<open>bcrypt.compare\<close>, a parameter. The result is the stored record of
  the authenticated user, or \<open>None\<close> for \<^verbatim>\<open>{ ok: false }\<close>.
\<close>

definition authUserAsync ::
  "(string \<Rightarrow> 'h \<Rightarrow> bool) \<Rightarrow> (string \<Rightarrow> string option) \<Rightarrow> 'h store \<Rightarrow> string option \<Rightarrow> 'h user option" where
  "authUserAsync compare decode users header =
     (case parseBasicAuth decode header of
        None \<Rightarrow> None
      | Some (cred_user_id, cred_password) \<Rightarrow>
          (case users (JStr cred_user_id) of
             None \<Rightarrow> None
           | Some u \<Rightarrow> if compare cred_password (passwordHash u) then Some u else None))"


section \<open>The handlers\<close>

text \<open>
  A handler takes the store and the parts of the request it reads, and gives the store
  after it and its outcome. Each handler runs from its first line to its response with
  no other handler in between (the serial execution that section 5 of the specification
  assumes). The middleware in front of the handlers (body parser, security headers, the
  redirection to https) is not part of the model.
\<close>

definition message :: "string \<Rightarrow> json" where
  "message m = JObj [(''message'', JStr m)]"

definition message_cause :: "string \<Rightarrow> string \<Rightarrow> json" where
  "message_cause m c = JObj [(''message'', JStr m), (''cause'', JStr c)]"

subsection \<open>POST /signup\<close>

text \<open>
  \<^verbatim>\<open>user_id.length < 6 || user_id.length > 20 || password.length < 8 || password.length > 20\<close>
\<close>

definition length_incorrect :: "(string \<Rightarrow> jsnum) \<Rightarrow> json \<Rightarrow> json \<Rightarrow> bool option" where
  "length_incorrect s2n uid pwd =
     js_or (js_lt s2n (js_length uid) 6)
       (js_or (js_gt s2n (js_length uid) 20)
          (js_or (js_lt s2n (js_length pwd) 8) (js_gt s2n (js_length pwd) 20)))"

text \<open>\<^verbatim>\<open>!isValidUserId(user_id) || !isValidPassword(password)\<close>\<close>

definition pattern_incorrect :: "json \<Rightarrow> json \<Rightarrow> bool option" where
  "pattern_incorrect uid pwd =
     js_or (map_option Not (isValidUserId uid)) (map_option Not (isValidPassword pwd))"

text \<open>
  \<open>hash\<close> is \<^verbatim>\<open>(p) => bcrypt.hash(p, 10)\<close>, a parameter of each call (the salt is fresh);
  \<open>None\<close> is a rejected promise, which the handler does not catch.
\<close>

definition signup ::
  "(string \<Rightarrow> jsnum) \<Rightarrow> (json \<Rightarrow> 'h option) \<Rightarrow> 'h store \<Rightarrow> json option \<Rightarrow> 'h store \<times> outcome" where
  "signup s2n hash users body =
     (let b = body_or_empty body;
          user_id_in = js_get b ''user_id'';
          password_in = js_get b ''password'';
          nickname_in = js_get b ''nickname'';
          comment_in = js_get b ''comment''
      in case (user_id_in, password_in) of
           (Some uid, Some pwd) \<Rightarrow>
             if \<not> truthy (Some uid) \<or> \<not> truthy (Some pwd) then
               (users, Response 400
                  (message_cause ''Account creation failed'' ''Required user_id and password''))
             else
               (case length_incorrect s2n uid pwd of
                  None \<Rightarrow> (users, Threw)
                | Some True \<Rightarrow>
                    (users, Response 400
                       (message_cause ''Account creation failed'' ''Input length is incorrect''))
                | Some False \<Rightarrow>
                    (case pattern_incorrect uid pwd of
                       None \<Rightarrow> (users, Threw)
                     | Some True \<Rightarrow>
                         (users, Response 400
                            (message_cause ''Account creation failed'' ''Incorrect character pattern''))
                     | Some False \<Rightarrow>
                         if users uid \<noteq> None then
                           (users, Response 400
                              (message_cause ''Account creation failed'' ''Already same user_id is used''))
                         else
                           (case hash pwd of
                              None \<Rightarrow> (users, Threw)
                            | Some h \<Rightarrow>
                                (users(uid \<mapsto>
                                   \<lparr>user_id = uid, passwordHash = h,
                                    nickname = Some (nullish_coalesce nickname_in uid),
                                    comment = Some (nullish_coalesce comment_in JNull)\<rparr>),
                                 Response 200
                                   (JObj [(''message'', JStr ''Account successfully created''),
                                          (''user'', JObj [(''user_id'', uid), (''nickname'', uid)])])))))
         | _ \<Rightarrow>
             (users, Response 400
                (message_cause ''Account creation failed'' ''Required user_id and password'')))"

subsection \<open>GET /users/:user_id\<close>

text \<open>
  \<^verbatim>\<open>u.nickname === undefined || u.nickname === "" ? u.user_id : u.nickname\<close>, used by
  the two handlers that send a record.
\<close>

definition effective_nickname :: "'h user \<Rightarrow> json" where
  "effective_nickname u =
     (case nickname u of
        None \<Rightarrow> user_id u
      | Some n \<Rightarrow> if n = JStr [] then user_id u else n)"

definition get_user ::
  "(string \<Rightarrow> 'h \<Rightarrow> bool) \<Rightarrow> (string \<Rightarrow> string option) \<Rightarrow> 'h store \<Rightarrow> string option \<Rightarrow> string
     \<Rightarrow> 'h store \<times> outcome" where
  "get_user compare decode users header path_user_id =
     (case authUserAsync compare decode users header of
        None \<Rightarrow> (users, Response 401 (message ''Authentication failed''))
      | Some auth_user \<Rightarrow>
          (case users (JStr path_user_id) of
             None \<Rightarrow> (users, Response 404 (message ''No user found''))
           | Some u \<Rightarrow>
               (users, Response 200
                  (JObj [(''message'', JStr ''User details by user_id''),
                         (''user'',
                          JObj ([(''user_id'', user_id u), (''nickname'', effective_nickname u)] @
                                (case comment u of
                                   None \<Rightarrow> []
                                 | Some c \<Rightarrow> if c \<noteq> JStr [] then [(''comment'', c)] else [])))]))))"

subsection \<open>PATCH /users/:user_id\<close>

text \<open>
  The test both fields go through, with the limit 30 for the nickname and 100 for the
  comment:
  \<^verbatim>\<open>typeof v !== "string" || (v !== "" && (!noCtrl(v) || v.length > limit))\<close>
\<close>

definition text_rejected :: "json option \<Rightarrow> nat \<Rightarrow> bool" where
  "text_rejected v limit =
     (case v of
        Some (JStr s) \<Rightarrow> s \<noteq> [] \<and> (\<not> noCtrl s \<or> length s > limit)
      | _ \<Rightarrow> True)"

definition patch_user ::
  "(string \<Rightarrow> 'h \<Rightarrow> bool) \<Rightarrow> (string \<Rightarrow> string option) \<Rightarrow> 'h store \<Rightarrow> string option \<Rightarrow> string
     \<Rightarrow> json option \<Rightarrow> 'h store \<times> outcome" where
  "patch_user compare decode users header path_user_id body =
     (case authUserAsync compare decode users header of
        None \<Rightarrow> (users, Response 401 (message ''Authentication failed''))
      | Some auth_user \<Rightarrow>
          (case users (JStr path_user_id) of
             None \<Rightarrow> (users, Response 404 (message ''No user found''))
           | Some u \<Rightarrow>
               if user_id auth_user \<noteq> JStr path_user_id then
                 (users, Response 403 (message ''No permission for update''))
               else
                 (let b = body_or_empty body;
                      nickname_in = js_get b ''nickname'';
                      comment_in = js_get b ''comment'';
                      uidInBody = js_get b ''user_id'';
                      pwdInBody = js_get b ''password''
                  in if uidInBody \<noteq> None \<or> pwdInBody \<noteq> None then
                       (users, Response 400
                          (message_cause ''User updation failed'' ''Not updatable user_id and password''))
                     else
                       (let hasNickname = hasOwnProperty b ''nickname'';
                            hasComment = hasOwnProperty b ''comment''
                        in if \<not> hasNickname \<and> \<not> hasComment then
                             (users, Response 400
                                (message_cause ''User updation failed'' ''Required nickname or comment''))
                           else if hasNickname \<and> text_rejected nickname_in 30 then
                             (users, Response 400
                                (message_cause ''User updation failed''
                                   ''String length limit exceeded or containing invalid characters''))
                           else if hasComment \<and> text_rejected comment_in 100 then
                             (users, Response 400
                                (message_cause ''User updation failed''
                                   ''String length limit exceeded or containing invalid characters''))
                           else
                             (let u1 = (if hasNickname
                                        then u\<lparr>nickname :=
                                               (if nickname_in = Some (JStr []) then Some (user_id u)
                                                else nickname_in)\<rparr>
                                        else u);
                                  u2 = (if hasComment then u1\<lparr>comment := comment_in\<rparr> else u1)
                              in (users(JStr path_user_id \<mapsto> u2),
                                  Response 200
                                    (JObj [(''message'', JStr ''User successfully updated''),
                                           (''user'',
                                            JObj [(''user_id'', user_id u2),
                                                  (''nickname'', effective_nickname u2),
                                                  (''comment'',
                                                   (case comment u2 of None \<Rightarrow> JStr [] | Some c \<Rightarrow> c))])]))))))) "

subsection \<open>POST /close\<close>

definition close_account ::
  "(string \<Rightarrow> 'h \<Rightarrow> bool) \<Rightarrow> (string \<Rightarrow> string option) \<Rightarrow> 'h store \<Rightarrow> string option
     \<Rightarrow> 'h store \<times> outcome" where
  "close_account compare decode users header =
     (case authUserAsync compare decode users header of
        None \<Rightarrow> (users, Response 401 (message ''Authentication failed''))
      | Some auth_user \<Rightarrow>
          (users(user_id auth_user := None),
           Response 200 (message ''Account and user successfully removed'')))"

subsection \<open>The reserved user\<close>

text \<open>\<^verbatim>\<open>seedReservedUser\<close>, run once when the module is loaded.\<close>

definition seedReservedUser :: "(json \<Rightarrow> 'h option) \<Rightarrow> 'h store \<Rightarrow> 'h store" where
  "seedReservedUser hash users =
     (let uid = JStr ''TaroYamada''; password = JStr ''PaSSwd4TY''
      in if users uid = None then
           (case hash password of
              None \<Rightarrow> users
            | Some h \<Rightarrow>
                users(uid \<mapsto>
                  \<lparr>user_id = uid, passwordHash = h,
                   nickname = Some (JStr ''TaroYamada''), comment = Some (JStr [])\<rparr>))
         else users)"


section \<open>Runs of the service\<close>

text \<open>
  The routes of the application, as the requests a run is made of. The store starts as
  \<^verbatim>\<open>new Map()\<close>; loading the module starts \<^verbatim>\<open>seedReservedUser\<close>. A request that
  hashes a password carries the \<^verbatim>\<open>bcrypt.hash\<close> of that call.
\<close>

datatype 'h request =
    Seed "json \<Rightarrow> 'h option"
  | Signup "json \<Rightarrow> 'h option" "json option"
  | GetUser "string option" string
  | PatchUser "string option" string "json option"
  | Close "string option"

fun handle ::
  "(string \<Rightarrow> jsnum) \<Rightarrow> (string \<Rightarrow> 'h \<Rightarrow> bool) \<Rightarrow> (string \<Rightarrow> string option) \<Rightarrow> 'h store \<Rightarrow> 'h request
     \<Rightarrow> 'h store" where
  "handle s2n compare decode users (Seed hash) = seedReservedUser hash users"
| "handle s2n compare decode users (Signup hash body) = fst (signup s2n hash users body)"
| "handle s2n compare decode users (GetUser header path_user_id) =
     fst (get_user compare decode users header path_user_id)"
| "handle s2n compare decode users (PatchUser header path_user_id body) =
     fst (patch_user compare decode users header path_user_id body)"
| "handle s2n compare decode users (Close header) = fst (close_account compare decode users header)"

fun run ::
  "(string \<Rightarrow> jsnum) \<Rightarrow> (string \<Rightarrow> 'h \<Rightarrow> bool) \<Rightarrow> (string \<Rightarrow> string option) \<Rightarrow> 'h store
     \<Rightarrow> 'h request list \<Rightarrow> 'h store" where
  "run s2n compare decode users [] = users"
| "run s2n compare decode users (r # rs) =
     run s2n compare decode (handle s2n compare decode users r) rs"

text \<open>Every record is stored under its own \<^verbatim>\<open>user_id\<close>.\<close>

definition keyed_by_user_id :: "'h store \<Rightarrow> bool" where
  "keyed_by_user_id users = (\<forall>k u. users k = Some u \<longrightarrow> user_id u = k)"

section \<open>The validation order of the specification\<close>

text \<open>
  Section 4.3 of the specification, in its words, for a \<^verbatim>\<open>user_id\<close> and a
  \<^verbatim>\<open>password\<close> that are strings or absent: the cause of the first rule that fails,
  \<open>None\<close> when the four rules hold.
\<close>

definition spec_present :: "string option \<Rightarrow> bool" where
  "spec_present s = (case s of None \<Rightarrow> False | Some t \<Rightarrow> t \<noteq> [])"

definition spec_length_in :: "nat \<Rightarrow> nat \<Rightarrow> string option \<Rightarrow> bool" where
  "spec_length_in lo hi s = (case s of None \<Rightarrow> False | Some t \<Rightarrow> lo \<le> length t \<and> length t \<le> hi)"

definition spec_matches :: "(char \<Rightarrow> bool) \<Rightarrow> nat \<Rightarrow> nat \<Rightarrow> string option \<Rightarrow> bool" where
  "spec_matches cls lo hi s =
     (case s of None \<Rightarrow> False | Some t \<Rightarrow> lo \<le> length t \<and> length t \<le> hi \<and> list_all cls t)"

definition spec_first_failing_rule :: "'h store \<Rightarrow> string option \<Rightarrow> string option \<Rightarrow> string option" where
  "spec_first_failing_rule users uid pwd =
     (if \<not> (spec_present uid \<and> spec_present pwd) then Some ''Required user_id and password''
      else if \<not> (spec_length_in 6 20 uid \<and> spec_length_in 8 20 pwd) then
        Some ''Input length is incorrect''
      else if \<not> (spec_matches alnum_char 6 20 uid \<and> spec_matches visible_char 8 20 pwd) then
        Some ''Incorrect character pattern''
      else if (case uid of None \<Rightarrow> False | Some t \<Rightarrow> users (JStr t) \<noteq> None) then
        Some ''Already same user_id is used''
      else None)"

section \<open>Stand-ins for the libraries, for concrete runs\<close>

text \<open>
  The theorems below hold for every \<open>hash\<close>, \<open>compare\<close>, \<open>decode\<close> and \<open>s2n\<close>. Where a
  theorem is applied to a concrete request, these take the place of the libraries: a
  hash that reverses the password (and rejects what is not a string, as \<^verbatim>\<open>bcrypt.hash\<close>
  does), its comparison, and base64 decoding of ASCII text.
\<close>

definition demo_hash :: "json \<Rightarrow> string option" where
  "demo_hash v = (case v of JStr s \<Rightarrow> Some (rev s) | _ \<Rightarrow> None)"

definition demo_compare :: "string \<Rightarrow> string \<Rightarrow> bool" where
  "demo_compare p h = (rev p = h)"

definition base64_value :: "char \<Rightarrow> nat option" where
  "base64_value c =
     (let n = (of_char c :: nat)
      in if 0x41 \<le> n \<and> n \<le> 0x5A then Some (n - 0x41)
         else if 0x61 \<le> n \<and> n \<le> 0x7A then Some (n - 0x61 + 26)
         else if 0x30 \<le> n \<and> n \<le> 0x39 then Some (n - 0x30 + 52)
         else if n = 0x2B then Some 62
         else if n = 0x2F then Some 63
         else None)"

fun base64_bytes :: "nat list \<Rightarrow> nat list" where
  "base64_bytes (a # b # c # d # rest) =
     (a * 4 + b div 16) # ((b mod 16) * 16 + c div 4) # ((c mod 4) * 64 + d) # base64_bytes rest"
| "base64_bytes [a, b, c] = [a * 4 + b div 16, (b mod 16) * 16 + c div 4]"
| "base64_bytes [a, b] = [a * 4 + b div 16]"
| "base64_bytes rest = []"

definition demo_decode :: "string \<Rightarrow> string option" where
  "demo_decode s = Some (map char_of (base64_bytes (List.map_filter base64_value s)))"

text \<open>
  A store for the examples: the module is loaded, then the example account of the
  specification signs up, without a nickname and without a comment. The two headers are
  \<^verbatim>\<open>Basic base64(TaroYamada:PaSSwd4TY)\<close> and \<^verbatim>\<open>Basic base64(validUser1:Passw0rd!)\<close>.
\<close>

definition demo_users :: "string store" where
  "demo_users =
     run (\<lambda>s. NaN) demo_compare demo_decode Map.empty
       [Seed demo_hash,
        Signup demo_hash
          (Some (JObj [(''user_id'', JStr ''validUser1''), (''password'', JStr ''Passw0rd!'')]))]"

definition taro_header :: "string option" where
  "taro_header = Some ''Basic VGFyb1lhbWFkYTpQYVNTd2Q0VFk=''"

definition validUser1_header :: "string option" where
  "validUser1_header = Some ''Basic dmFsaWRVc2VyMTpQYXNzdzByZCE=''"

section \<open>Facts about the handlers\<close>

subsection \<open>Signup\<close>

lemma signup_success_shape:
  assumes "signup s2n hash users body = (users', Response 200 rb)"
  shows "\<exists>uid pwd h. js_get (body_or_empty body) ''user_id'' = Some uid \<and>
           js_get (body_or_empty body) ''password'' = Some pwd \<and>
           users uid = None \<and> hash pwd = Some h \<and>
           users' = users(uid \<mapsto> \<lparr>user_id = uid, passwordHash = h,
                      nickname = Some (nullish_coalesce (js_get (body_or_empty body) ''nickname'') uid),
                      comment = Some (nullish_coalesce (js_get (body_or_empty body) ''comment'') JNull)\<rparr>) \<and>
           rb = JObj [(''message'', JStr ''Account successfully created''),
                      (''user'', JObj [(''user_id'', uid), (''nickname'', uid)])]"
  using assms
  by (auto simp: signup_def Let_def message_cause_def split: option.splits bool.splits if_splits)

lemma signup_store_cases:
  "fst (signup s2n hash users body) = users \<or>
   (\<exists>uid r. js_get (body_or_empty body) ''user_id'' = Some uid \<and> users uid = None \<and>
      fst (signup s2n hash users body) = users(uid \<mapsto> r) \<and> user_id r = uid)"
  by (auto simp: signup_def Let_def split: option.splits bool.splits)

text \<open>On strings the two conditions of the handler are what the regular expressions and the lengths say.\<close>

lemma length_incorrect_strings:
  "length_incorrect s2n (JStr u) (JStr p) =
     Some (length u < 6 \<or> length u > 20 \<or> length p < 8 \<or> length p > 20)"
  by (cases "length u < 6"; cases "length u > 20"; cases "length p < 8"; cases "length p > 20")
     (simp_all add: length_incorrect_def js_lt_def js_gt_def)

lemma pattern_incorrect_strings:
  "pattern_incorrect (JStr u) (JStr p) =
     Some (\<not> (6 \<le> length u \<and> length u \<le> 20 \<and> list_all alnum_char u) \<or>
           \<not> (8 \<le> length p \<and> length p \<le> 20 \<and> list_all visible_char p))"
  by (cases "6 \<le> length u \<and> length u \<le> 20 \<and> list_all alnum_char u")
     (simp_all add: pattern_incorrect_def isValidUserId_def isValidPassword_def)

lemma length_incorrect_short_user_id:
  "length u < 6 \<or> length u > 20 \<Longrightarrow> length_incorrect s2n (JStr u) pwd = Some True"
  by (cases "length u < 6") (simp_all add: length_incorrect_def js_lt_def js_gt_def)

lemma signup_strings:
  assumes "js_get (body_or_empty body) ''user_id'' = Some (JStr u)"
    and "js_get (body_or_empty body) ''password'' = Some (JStr p)"
  shows "signup s2n hash users body =
    (if u = [] \<or> p = [] then
       (users, Response 400 (message_cause ''Account creation failed'' ''Required user_id and password''))
     else if length u < 6 \<or> length u > 20 \<or> length p < 8 \<or> length p > 20 then
       (users, Response 400 (message_cause ''Account creation failed'' ''Input length is incorrect''))
     else if \<not> (list_all alnum_char u \<and> list_all visible_char p) then
       (users, Response 400 (message_cause ''Account creation failed'' ''Incorrect character pattern''))
     else if users (JStr u) \<noteq> None then
       (users, Response 400 (message_cause ''Account creation failed'' ''Already same user_id is used''))
     else
       (case hash (JStr p) of
          None \<Rightarrow> (users, Threw)
        | Some h \<Rightarrow>
            (users(JStr u \<mapsto>
               \<lparr>user_id = JStr u, passwordHash = h,
                nickname = Some (nullish_coalesce (js_get (body_or_empty body) ''nickname'') (JStr u)),
                comment = Some (nullish_coalesce (js_get (body_or_empty body) ''comment'') JNull)\<rparr>),
             Response 200
               (JObj [(''message'', JStr ''Account successfully created''),
                      (''user'', JObj [(''user_id'', JStr u), (''nickname'', JStr u)])]))))"
  using assms
  by (auto simp: signup_def Let_def length_incorrect_strings pattern_incorrect_strings
      split: option.splits)

lemma signup_absent:
  assumes "js_get (body_or_empty body) ''user_id'' = None \<or>
           js_get (body_or_empty body) ''password'' = None"
  shows "signup s2n hash users body =
    (users, Response 400 (message_cause ''Account creation failed'' ''Required user_id and password''))"
  using assms by (auto simp: signup_def Let_def split: option.splits)

subsection \<open>Authentication\<close>

lemma authUserAsync_Some:
  assumes "authUserAsync compare decode users header = Some a"
  shows "\<exists>uid pw. parseBasicAuth decode header = Some (uid, pw) \<and> users (JStr uid) = Some a \<and>
           compare pw (passwordHash a)"
  using assms by (auto simp: authUserAsync_def split: option.splits if_splits)

lemma authUserAsync_absent_key:
  "parseBasicAuth decode header = Some (uid, pw) \<Longrightarrow> users (JStr uid) = None \<Longrightarrow>
   authUserAsync compare decode users header = None"
  by (simp add: authUserAsync_def)

lemma parseBasicAuth_no_header: "parseBasicAuth decode None = None"
  by (simp add: parseBasicAuth_def basic_prefix_def)

lemma parseBasicAuth_not_basic: "\<not> basic_prefix h \<Longrightarrow> parseBasicAuth decode (Some h) = None"
  by (simp add: parseBasicAuth_def)

lemma parseBasicAuth_no_colon:
  assumes "\<forall>raw. decode (trim (dropWhile is_space (drop 5 h))) = Some raw \<longrightarrow> CHR '':'' \<notin> set raw"
  shows "parseBasicAuth decode (Some h) = None"
  using assms by (auto simp: parseBasicAuth_def Let_def indexOf_def split: option.splits)

lemma no_header_unauthenticated: "authUserAsync compare decode users None = None"
  by (simp add: authUserAsync_def parseBasicAuth_no_header)

lemma get_user_401:
  "authUserAsync compare decode users header = None \<Longrightarrow>
   get_user compare decode users header p = (users, Response 401 (message ''Authentication failed''))"
  by (simp add: get_user_def)

lemma patch_user_401:
  "authUserAsync compare decode users header = None \<Longrightarrow>
   patch_user compare decode users header p body =
     (users, Response 401 (message ''Authentication failed''))"
  by (simp add: patch_user_def)

lemma close_account_401:
  "authUserAsync compare decode users header = None \<Longrightarrow>
   close_account compare decode users header =
     (users, Response 401 (message ''Authentication failed''))"
  by (simp add: close_account_def)

subsection \<open>Update\<close>

lemma patch_user_400_store:
  "snd (patch_user compare decode users header p body) = Response 400 rb \<Longrightarrow>
   fst (patch_user compare decode users header p body) = users"
  by (auto simp: patch_user_def Let_def split: option.splits if_splits)

lemma patch_user_success_shape:
  assumes "patch_user compare decode users header p body = (users', Response 200 rb)"
  shows "\<exists>a u. authUserAsync compare decode users header = Some a \<and>
           users (JStr p) = Some u \<and> user_id a = JStr p \<and>
           (let u' = u\<lparr>nickname :=
                         (case js_get (body_or_empty body) ''nickname'' of
                            None \<Rightarrow> nickname u
                          | Some v \<Rightarrow> if v = JStr [] then Some (user_id u) else Some v),
                       comment :=
                         (case js_get (body_or_empty body) ''comment'' of
                            None \<Rightarrow> comment u
                          | Some v \<Rightarrow> Some v)\<rparr>
            in users' = users(JStr p \<mapsto> u') \<and>
               rb = JObj [(''message'', JStr ''User successfully updated''),
                          (''user'',
                           JObj [(''user_id'', user_id u), (''nickname'', effective_nickname u'),
                                 (''comment'', (case comment u' of None \<Rightarrow> JStr [] | Some c \<Rightarrow> c))])])"
proof -
  have own: "hasOwnProperty b k = (js_get b k \<noteq> None)" for b k
    by (cases b) simp_all
  show ?thesis
    using assms
    by (auto simp: patch_user_def Let_def own split: option.splits if_splits)
qed

lemma patch_user_store_cases:
  "fst (patch_user compare decode users header p body) = users \<or>
   (\<exists>u u'. users (JStr p) = Some u \<and>
      fst (patch_user compare decode users header p body) = users(JStr p \<mapsto> u') \<and>
      user_id u' = user_id u \<and> passwordHash u' = passwordHash u)"
  by (auto simp: patch_user_def Let_def split: option.splits)

subsection \<open>Retrieval and close\<close>

lemma get_user_store: "fst (get_user compare decode users header p) = users"
  by (simp add: get_user_def split: option.splits)

lemma close_account_store_cases:
  "fst (close_account compare decode users header) = users \<or>
   (\<exists>a. authUserAsync compare decode users header = Some a \<and>
      fst (close_account compare decode users header) = users(user_id a := None))"
  by (auto simp: close_account_def split: option.splits)

subsection \<open>Every record is stored under its own identifier\<close>

lemma keyed_empty: "keyed_by_user_id Map.empty"
  by (simp add: keyed_by_user_id_def)

lemma keyed_update:
  "keyed_by_user_id users \<Longrightarrow> user_id u = k \<Longrightarrow> keyed_by_user_id (users(k \<mapsto> u))"
  by (simp add: keyed_by_user_id_def)

lemma keyed_remove: "keyed_by_user_id users \<Longrightarrow> keyed_by_user_id (users(k := None))"
  by (simp add: keyed_by_user_id_def)

lemma keyed_lookup: "keyed_by_user_id users \<Longrightarrow> users k = Some u \<Longrightarrow> user_id u = k"
  by (simp add: keyed_by_user_id_def)

lemma keyed_seed: "keyed_by_user_id users \<Longrightarrow> keyed_by_user_id (seedReservedUser hash users)"
  by (auto simp: seedReservedUser_def Let_def intro: keyed_update split: option.splits)

lemma keyed_signup:
  assumes "keyed_by_user_id users"
  shows "keyed_by_user_id (fst (signup s2n hash users body))"
  using signup_store_cases [of s2n hash users body] assms
  by (auto intro: keyed_update)

lemma keyed_patch_user:
  assumes "keyed_by_user_id users"
  shows "keyed_by_user_id (fst (patch_user compare decode users header p body))"
proof -
  from patch_user_store_cases [of compare decode users header p body]
  consider "fst (patch_user compare decode users header p body) = users"
    | u u' where "users (JStr p) = Some u"
        "fst (patch_user compare decode users header p body) = users(JStr p \<mapsto> u')"
        "user_id u' = user_id u"
    by blast
  then show ?thesis
  proof cases
    case 1
    with assms show ?thesis by simp
  next
    case 2
    from keyed_lookup [OF assms 2(1)] 2(3) have "user_id u' = JStr p" by simp
    from keyed_update [OF assms this] 2(2) show ?thesis by simp
  qed
qed

lemma keyed_close_account:
  assumes "keyed_by_user_id users"
  shows "keyed_by_user_id (fst (close_account compare decode users header))"
  using close_account_store_cases [of compare decode users header] assms
  by (auto intro: keyed_remove)

lemma keyed_handle:
  "keyed_by_user_id users \<Longrightarrow> keyed_by_user_id (handle s2n compare decode users r)"
  by (cases r) (simp_all add: keyed_seed keyed_signup keyed_patch_user keyed_close_account get_user_store)

lemma keyed_run:
  "keyed_by_user_id users \<Longrightarrow> keyed_by_user_id (run s2n compare decode users rs)"
  by (induction rs arbitrary: users) (simp_all add: keyed_handle)

lemma authenticated_key:
  assumes "keyed_by_user_id users" and "authUserAsync compare decode users header = Some a"
  shows "\<exists>uid pw. parseBasicAuth decode header = Some (uid, pw) \<and> users (JStr uid) = Some a \<and>
           user_id a = JStr uid"
  using authUserAsync_Some [OF assms(2)] keyed_lookup [OF assms(1)] by blast

section \<open>The example accounts\<close>

text \<open>The reserved user, and the example account of the specification.\<close>

lemma seeded_store:
  "seedReservedUser demo_hash Map.empty =
     Map.empty(JStr ''TaroYamada'' \<mapsto>
       \<lparr>user_id = JStr ''TaroYamada'', passwordHash = ''YT4dwSSaP'',
        nickname = Some (JStr ''TaroYamada''), comment = Some (JStr [])\<rparr>)"
  by (simp add: seedReservedUser_def demo_hash_def Let_def)

lemma validUser1_lengths:
  "length_incorrect s2n (JStr ''validUser1'') (JStr ''Passw0rd!'') = Some False"
  by (simp add: length_incorrect_def js_lt_def js_gt_def)

lemma validUser1_patterns:
  "pattern_incorrect (JStr ''validUser1'') (JStr ''Passw0rd!'') = Some False"
  by (simp add: pattern_incorrect_def isValidUserId_def isValidPassword_def alnum_char_def
      visible_char_def)

lemma signup_validUser1:
  "users (JStr ''validUser1'') = None \<Longrightarrow>
   signup s2n demo_hash users
     (Some (JObj [(''user_id'', JStr ''validUser1''), (''password'', JStr ''Passw0rd!'')])) =
   (users(JStr ''validUser1'' \<mapsto>
      \<lparr>user_id = JStr ''validUser1'', passwordHash = ''!dr0wssaP'',
       nickname = Some (JStr ''validUser1''), comment = Some JNull\<rparr>),
    Response 200
      (JObj [(''message'', JStr ''Account successfully created''),
             (''user'', JObj [(''user_id'', JStr ''validUser1''), (''nickname'', JStr ''validUser1'')])]))"
  by (simp add: signup_def body_or_empty_def validUser1_lengths validUser1_patterns demo_hash_def)

lemma signup_validUser1_Bob:
  "signup s2n demo_hash Map.empty
     (Some (JObj [(''user_id'', JStr ''validUser1''), (''password'', JStr ''Passw0rd!''),
                  (''nickname'', JStr ''Bob'')])) =
   (Map.empty(JStr ''validUser1'' \<mapsto>
      \<lparr>user_id = JStr ''validUser1'', passwordHash = ''!dr0wssaP'',
       nickname = Some (JStr ''Bob''), comment = Some JNull\<rparr>),
    Response 200
      (JObj [(''message'', JStr ''Account successfully created''),
             (''user'', JObj [(''user_id'', JStr ''validUser1''), (''nickname'', JStr ''validUser1'')])]))"
  by (simp add: signup_def body_or_empty_def validUser1_lengths validUser1_patterns demo_hash_def)

lemma demo_users_eq:
  "demo_users =
     Map.empty(JStr ''TaroYamada'' \<mapsto>
       \<lparr>user_id = JStr ''TaroYamada'', passwordHash = ''YT4dwSSaP'',
        nickname = Some (JStr ''TaroYamada''), comment = Some (JStr [])\<rparr>,
      JStr ''validUser1'' \<mapsto>
       \<lparr>user_id = JStr ''validUser1'', passwordHash = ''!dr0wssaP'',
        nickname = Some (JStr ''validUser1''), comment = Some JNull\<rparr>)"
  by (simp add: demo_users_def seeded_store signup_validUser1)

lemma taro_credentials:
  "parseBasicAuth demo_decode taro_header = Some (''TaroYamada'', ''PaSSwd4TY'')"
  unfolding taro_header_def by code_simp

lemma validUser1_credentials:
  "parseBasicAuth demo_decode validUser1_header = Some (''validUser1'', ''Passw0rd!'')"
  unfolding validUser1_header_def by code_simp

lemma taro_authenticated:
  "authUserAsync demo_compare demo_decode demo_users taro_header =
     Some \<lparr>user_id = JStr ''TaroYamada'', passwordHash = ''YT4dwSSaP'',
           nickname = Some (JStr ''TaroYamada''), comment = Some (JStr [])\<rparr>"
  by (simp add: authUserAsync_def taro_credentials demo_users_eq demo_compare_def)

lemma validUser1_authenticated:
  "authUserAsync demo_compare demo_decode demo_users validUser1_header =
     Some \<lparr>user_id = JStr ''validUser1'', passwordHash = ''!dr0wssaP'',
           nickname = Some (JStr ''validUser1''), comment = Some JNull\<rparr>"
  by (simp add: authUserAsync_def validUser1_credentials demo_users_eq demo_compare_def)

lemma demo_users_TaroYamada:
  "demo_users (JStr ''TaroYamada'') =
     Some \<lparr>user_id = JStr ''TaroYamada'', passwordHash = ''YT4dwSSaP'',
           nickname = Some (JStr ''TaroYamada''), comment = Some (JStr [])\<rparr>"
  by (simp add: demo_users_eq)

lemma demo_users_validUser1:
  "demo_users (JStr ''validUser1'') =
     Some \<lparr>user_id = JStr ''validUser1'', passwordHash = ''!dr0wssaP'',
           nickname = Some (JStr ''validUser1''), comment = Some JNull\<rparr>"
  by (simp add: demo_users_eq)

lemma demo_users_nobody: "demo_users (JStr ''nobody'') = None"
  by (simp add: demo_users_eq)

lemma demo_signup:
  "signup s2n demo_hash (seedReservedUser demo_hash Map.empty)
     (Some (JObj [(''user_id'', JStr ''validUser1''), (''password'', JStr ''Passw0rd!'')])) =
   (demo_users,
    Response 200
      (JObj [(''message'', JStr ''Account successfully created''),
             (''user'', JObj [(''user_id'', JStr ''validUser1''), (''nickname'', JStr ''validUser1'')])]))"
proof -
  have "seedReservedUser demo_hash Map.empty (JStr ''validUser1'') = None"
    by (simp add: seeded_store)
  from signup_validUser1 [where users = "seedReservedUser demo_hash Map.empty", OF this]
  show ?thesis
    by (simp add: demo_users_eq seeded_store)
qed

section \<open>Signup: the response and the order of validation\<close>

text \<open>
  Claim C1. Whenever the signup handler answers 200, the \<^verbatim>\<open>nickname\<close> of the body it
  sends is the \<^verbatim>\<open>user_id\<close> of the request, also when the request gave a nickname of its
  own (one that is not \<^verbatim>\<open>null\<close>), which is then the nickname of the stored record.
\<close>

theorem signup_response_nickname_is_user_id:
  assumes "signup s2n hash users body = (users', Response 200 rb)"
  shows "\<exists>uid r.
           js_get (body_or_empty body) ''user_id'' = Some uid \<and>
           rb = JObj [(''message'', JStr ''Account successfully created''),
                      (''user'', JObj [(''user_id'', uid), (''nickname'', uid)])] \<and>
           users' uid = Some r \<and>
           (\<forall>nk. js_get (body_or_empty body) ''nickname'' = Some nk \<and> nk \<noteq> JNull
                 \<longrightarrow> nickname r = Some nk)"
proof -
  from signup_success_shape [OF assms] obtain uid pwd h where
    uid: "js_get (body_or_empty body) ''user_id'' = Some uid" and
    st: "users' = users(uid \<mapsto> \<lparr>user_id = uid, passwordHash = h,
           nickname = Some (nullish_coalesce (js_get (body_or_empty body) ''nickname'') uid),
           comment = Some (nullish_coalesce (js_get (body_or_empty body) ''comment'') JNull)\<rparr>)" and
    rb: "rb = JObj [(''message'', JStr ''Account successfully created''),
                    (''user'', JObj [(''user_id'', uid), (''nickname'', uid)])]"
    by blast
  have "nullish_coalesce (Some nk) uid = nk" if "nk \<noteq> JNull" for nk
    using that by (cases nk) simp_all
  with uid st rb show ?thesis by auto
qed

theorem signup_response_nickname_is_user_id_witness:
  "\<exists>users' r.
     signup (\<lambda>s. NaN) demo_hash Map.empty
       (Some (JObj [(''user_id'', JStr ''validUser1''), (''password'', JStr ''Passw0rd!''),
                    (''nickname'', JStr ''Bob'')])) =
       (users', Response 200
          (JObj [(''message'', JStr ''Account successfully created''),
                 (''user'', JObj [(''user_id'', JStr ''validUser1''),
                                  (''nickname'', JStr ''validUser1'')])])) \<and>
     users' (JStr ''validUser1'') = Some r \<and> nickname r = Some (JStr ''Bob'')"
proof -
  let ?body = "Some (JObj [(''user_id'', JStr ''validUser1''), (''password'', JStr ''Passw0rd!''),
                           (''nickname'', JStr ''Bob'')])"
  note run = signup_validUser1_Bob [of "\<lambda>s. NaN"]
  from signup_response_nickname_is_user_id [OF run] obtain uid r where
    "js_get (body_or_empty ?body) ''user_id'' = Some uid" and
    "(Map.empty(JStr ''validUser1'' \<mapsto>
        \<lparr>user_id = JStr ''validUser1'', passwordHash = ''!dr0wssaP'',
         nickname = Some (JStr ''Bob''), comment = Some JNull\<rparr>)) uid = Some r" and
    "\<forall>nk. js_get (body_or_empty ?body) ''nickname'' = Some nk \<and> nk \<noteq> JNull
          \<longrightarrow> nickname r = Some nk"
    by blast
  then have "uid = JStr ''validUser1''" and "nickname r = Some (JStr ''Bob'')"
    by (simp_all add: body_or_empty_def)
  with run \<open>_ uid = Some r\<close> show ?thesis by blast
qed

subsection \<open>The order of validation on strings\<close>

text \<open>
  For a \<^verbatim>\<open>user_id\<close> and a \<^verbatim>\<open>password\<close> that are strings, or keys that are absent, the
  handler answers 400 with the cause of the first rule of section 4.3 that fails, in the
  order presence, length, character pattern, duplicate, and it answers no 400 when none
  fails. With a password present, a \<^verbatim>\<open>user_id\<close> string of length 5 or 21 gives the
  cause of the length rule; with a password of 8 to 20 characters, the \<^verbatim>\<open>user_id\<close>
  \<^verbatim>\<open>abc 123456\<close> gives the cause of the pattern rule. A field that is \<^verbatim>\<open>null\<close> fails the
  presence rule.
\<close>

lemma signup_order_on_strings:
  "(js_get (body_or_empty body) ''user_id'' = map_option JStr uid \<and>
    js_get (body_or_empty body) ''password'' = map_option JStr pwd \<longrightarrow>
      (case spec_first_failing_rule users uid pwd of
         Some cause \<Rightarrow>
           signup s2n hash users body =
             (users, Response 400 (message_cause ''Account creation failed'' cause))
       | None \<Rightarrow> (\<forall>rb. snd (signup s2n hash users body) \<noteq> Response 400 rb))) \<and>
   (js_get (body_or_empty body) ''user_id'' = Some (JStr u) \<and>
    (length u = 5 \<or> length u = 21) \<and> truthy (js_get (body_or_empty body) ''password'') \<longrightarrow>
      signup s2n hash users body =
        (users, Response 400 (message_cause ''Account creation failed'' ''Input length is incorrect''))) \<and>
   (js_get (body_or_empty body) ''user_id'' = Some (JStr ''abc 123456'') \<and>
    js_get (body_or_empty body) ''password'' = Some (JStr p) \<and> 8 \<le> length p \<and> length p \<le> 20 \<longrightarrow>
      signup s2n hash users body =
        (users, Response 400 (message_cause ''Account creation failed'' ''Incorrect character pattern'')))"
proof (intro conjI impI)
  assume a: "js_get (body_or_empty body) ''user_id'' = map_option JStr uid \<and>
    js_get (body_or_empty body) ''password'' = map_option JStr pwd"
  show "case spec_first_failing_rule users uid pwd of
         Some cause \<Rightarrow>
           signup s2n hash users body =
             (users, Response 400 (message_cause ''Account creation failed'' cause))
       | None \<Rightarrow> (\<forall>rb. snd (signup s2n hash users body) \<noteq> Response 400 rb)"
  proof (cases "uid = None \<or> pwd = None")
    case True
    with a have "js_get (body_or_empty body) ''user_id'' = None \<or>
           js_get (body_or_empty body) ''password'' = None" by auto
    from signup_absent [OF this] True show ?thesis
      by (auto simp: spec_first_failing_rule_def spec_present_def)
  next
    case False
    then obtain u' p' where up: "uid = Some u'" "pwd = Some p'" by auto
    with a have g: "js_get (body_or_empty body) ''user_id'' = Some (JStr u')"
      "js_get (body_or_empty body) ''password'' = Some (JStr p')" by simp_all
    show ?thesis
      unfolding signup_strings [OF g] up
      by (auto simp: spec_first_failing_rule_def spec_present_def spec_length_in_def
          spec_matches_def split: option.splits)
  qed
next
  assume a: "js_get (body_or_empty body) ''user_id'' = Some (JStr u) \<and>
    (length u = 5 \<or> length u = 21) \<and> truthy (js_get (body_or_empty body) ''password'')"
  then obtain pv where pv: "js_get (body_or_empty body) ''password'' = Some pv"
    by (cases "js_get (body_or_empty body) ''password''") auto
  from a have "u \<noteq> []" by auto
  moreover from a have "length_incorrect s2n (JStr u) pv = Some True"
    by (intro length_incorrect_short_user_id) auto
  ultimately show "signup s2n hash users body =
        (users, Response 400 (message_cause ''Account creation failed'' ''Input length is incorrect''))"
    using a pv by (simp add: signup_def)
next
  assume a: "js_get (body_or_empty body) ''user_id'' = Some (JStr ''abc 123456'') \<and>
    js_get (body_or_empty body) ''password'' = Some (JStr p) \<and> 8 \<le> length p \<and> length p \<le> 20"
  then have g: "js_get (body_or_empty body) ''user_id'' = Some (JStr ''abc 123456'')"
    "js_get (body_or_empty body) ''password'' = Some (JStr p)" by simp_all
  have "\<not> list_all alnum_char ''abc 123456''" by (simp add: alnum_char_def)
  with a show "signup s2n hash users body =
        (users, Response 400 (message_cause ''Account creation failed'' ''Incorrect character pattern''))"
    unfolding signup_strings [OF g] by auto
qed

lemma signup_order_on_strings_examples:
  "signup (\<lambda>s. NaN) demo_hash Map.empty
     (Some (JObj [(''user_id'', JStr ''abcde''), (''password'', JStr ''Passw0rd!'')])) =
     (Map.empty, Response 400 (message_cause ''Account creation failed'' ''Input length is incorrect'')) \<and>
   signup (\<lambda>s. NaN) demo_hash Map.empty
     (Some (JObj [(''user_id'', JStr ''abcdefghijklmnopqrstu''), (''password'', JStr ''Passw0rd!'')])) =
     (Map.empty, Response 400 (message_cause ''Account creation failed'' ''Input length is incorrect'')) \<and>
   signup (\<lambda>s. NaN) demo_hash Map.empty
     (Some (JObj [(''user_id'', JStr ''abc 123456''), (''password'', JStr ''Passw0rd!'')])) =
     (Map.empty, Response 400 (message_cause ''Account creation failed'' ''Incorrect character pattern'')) \<and>
   signup (\<lambda>s. NaN) demo_hash (seedReservedUser demo_hash Map.empty)
     (Some (JObj [(''user_id'', JStr ''TaroYamada''), (''password'', JStr ''PaSSwd4TY'')])) =
     (seedReservedUser demo_hash Map.empty,
      Response 400 (message_cause ''Account creation failed'' ''Already same user_id is used''))"
proof (intro conjI)
  let ?b1 = "Some (JObj [(''user_id'', JStr ''abcde''), (''password'', JStr ''Passw0rd!'')])"
  have "js_get (body_or_empty ?b1) ''user_id'' = Some (JStr ''abcde'') \<and>
    (length ''abcde'' = 5 \<or> length ''abcde'' = 21) \<and> truthy (js_get (body_or_empty ?b1) ''password'')"
    by (simp add: body_or_empty_def)
  with signup_order_on_strings [where body = ?b1 and u = "''abcde''"]
  show "signup (\<lambda>s. NaN) demo_hash Map.empty ?b1 =
     (Map.empty, Response 400 (message_cause ''Account creation failed'' ''Input length is incorrect''))"
    by blast
next
  let ?b2 = "Some (JObj [(''user_id'', JStr ''abcdefghijklmnopqrstu''), (''password'', JStr ''Passw0rd!'')])"
  have "js_get (body_or_empty ?b2) ''user_id'' = Some (JStr ''abcdefghijklmnopqrstu'') \<and>
    (length ''abcdefghijklmnopqrstu'' = 5 \<or> length ''abcdefghijklmnopqrstu'' = 21) \<and>
    truthy (js_get (body_or_empty ?b2) ''password'')"
    by (simp add: body_or_empty_def)
  with signup_order_on_strings [where body = ?b2 and u = "''abcdefghijklmnopqrstu''"]
  show "signup (\<lambda>s. NaN) demo_hash Map.empty ?b2 =
     (Map.empty, Response 400 (message_cause ''Account creation failed'' ''Input length is incorrect''))"
    by blast
next
  let ?b3 = "Some (JObj [(''user_id'', JStr ''abc 123456''), (''password'', JStr ''Passw0rd!'')])"
  have "js_get (body_or_empty ?b3) ''user_id'' = Some (JStr ''abc 123456'') \<and>
    js_get (body_or_empty ?b3) ''password'' = Some (JStr ''Passw0rd!'') \<and>
    8 \<le> length ''Passw0rd!'' \<and> length ''Passw0rd!'' \<le> 20"
    by (simp add: body_or_empty_def)
  with signup_order_on_strings [where body = ?b3 and p = "''Passw0rd!''"]
  show "signup (\<lambda>s. NaN) demo_hash Map.empty ?b3 =
     (Map.empty, Response 400 (message_cause ''Account creation failed'' ''Incorrect character pattern''))"
    by blast
next
  let ?b4 = "Some (JObj [(''user_id'', JStr ''TaroYamada''), (''password'', JStr ''PaSSwd4TY'')])"
  let ?users = "seedReservedUser demo_hash Map.empty"
  have g: "js_get (body_or_empty ?b4) ''user_id'' = map_option JStr (Some ''TaroYamada'') \<and>
    js_get (body_or_empty ?b4) ''password'' = map_option JStr (Some ''PaSSwd4TY'')"
    by (simp add: body_or_empty_def)
  have r: "spec_first_failing_rule ?users (Some ''TaroYamada'') (Some ''PaSSwd4TY'') =
    Some ''Already same user_id is used''"
    by (simp add: spec_first_failing_rule_def spec_present_def spec_length_in_def
        spec_matches_def alnum_char_def visible_char_def seeded_store)
  from signup_order_on_strings [where body = ?b4 and uid = "Some ''TaroYamada''"
      and pwd = "Some ''PaSSwd4TY''" and users = ?users and s2n = "\<lambda>s. NaN" and hash = demo_hash,
      THEN conjunct1, rule_format, OF g]
  show "signup (\<lambda>s. NaN) demo_hash ?users ?b4 =
     (?users, Response 400 (message_cause ''Account creation failed'' ''Already same user_id is used''))"
    unfolding r by simp
qed

lemma signup_null_field:
  assumes "js_get (body_or_empty body) ''user_id'' = Some JNull \<or>
           js_get (body_or_empty body) ''password'' = Some JNull"
  shows "signup s2n hash users body =
    (users, Response 400 (message_cause ''Account creation failed'' ''Required user_id and password''))"
  using assms by (auto simp: signup_def Let_def split: option.splits)

subsection \<open>Fields that are numbers\<close>

text \<open>
  The handler does not look at the type of \<^verbatim>\<open>user_id\<close> and \<^verbatim>\<open>password\<close> (the update
  handler does, with \<^verbatim>\<open>typeof\<close>). A number has no \<^verbatim>\<open>length\<close>: the read gives
  \<^verbatim>\<open>undefined\<close>, and \<^verbatim>\<open>undefined < 6\<close> and \<^verbatim>\<open>undefined > 20\<close> are both false. So the
  length rule says nothing about a number, and the pattern rule sees its decimal digits.
\<close>

lemma number_has_no_length:
  "length_incorrect s2n (JNum n) (JStr p) = Some (length p < 8 \<or> length p > 20)"
  by (cases "length p < 8"; cases "length p > 20")
     (simp_all add: length_incorrect_def js_lt_def js_gt_def)

lemma length_incorrect_number_password:
  "length_incorrect s2n (JStr ''validUser1'') (JNum n) = Some False"
  by (simp add: length_incorrect_def js_lt_def js_gt_def)

lemma digit_chars:
  "char_of (48::nat) = CHR ''0''" "char_of (49::nat) = CHR ''1''" "char_of (50::nat) = CHR ''2''"
  "char_of (51::nat) = CHR ''3''" "char_of (52::nat) = CHR ''4''" "char_of (53::nat) = CHR ''5''"
  "char_of (54::nat) = CHR ''6''" "char_of (55::nat) = CHR ''7''" "char_of (56::nat) = CHR ''8''"
  "char_of (57::nat) = CHR ''9''"
  by code_simp+

lemma digits_12345: "nat_digits 12345 = ''12345''"
  by (simp add: nat_digits.simps digit_chars)

lemma digits_123456: "nat_digits 123456 = ''123456''"
  by (simp add: nat_digits.simps digit_chars)

lemma digits_12345678: "nat_digits 12345678 = ''12345678''"
  by (simp add: nat_digits.simps digit_chars)

lemma pattern_incorrect_12345: "pattern_incorrect (JNum 12345) pwd = Some True"
  by (simp add: pattern_incorrect_def isValidUserId_def digits_12345)

lemma pattern_incorrect_123456:
  "pattern_incorrect (JNum 123456) (JStr ''Passw0rd!'') = Some False"
  by (simp add: pattern_incorrect_def isValidUserId_def isValidPassword_def digits_123456
      alnum_char_def visible_char_def)

lemma pattern_incorrect_12345678:
  "pattern_incorrect (JStr ''validUser1'') (JNum 12345678) = Some False"
  by (simp add: pattern_incorrect_def isValidUserId_def isValidPassword_def digits_12345678
      alnum_char_def visible_char_def)

text \<open>
  The number \<^verbatim>\<open>123456\<close> is accepted as a \<^verbatim>\<open>user_id\<close> and stored under a key that is a
  number, which no path and no credentials can name. A number as password passes the
  length and the pattern rule and is handed to \<^verbatim>\<open>bcrypt.hash\<close>; when that rejects it,
  the handler raises.
\<close>

lemma signup_number_user_id_accepted:
  assumes "users (JNum 123456) = None" and "hash (JStr ''Passw0rd!'') = Some h"
  shows "signup s2n hash users
     (Some (JObj [(''user_id'', JNum 123456), (''password'', JStr ''Passw0rd!'')])) =
   (users(JNum 123456 \<mapsto>
      \<lparr>user_id = JNum 123456, passwordHash = h,
       nickname = Some (JNum 123456), comment = Some JNull\<rparr>),
    Response 200
      (JObj [(''message'', JStr ''Account successfully created''),
             (''user'', JObj [(''user_id'', JNum 123456), (''nickname'', JNum 123456)])]))"
  using assms
  by (simp add: signup_def body_or_empty_def number_has_no_length pattern_incorrect_123456)

lemma signup_number_password_raises:
  assumes "users (JStr ''validUser1'') = None" and "hash (JNum 12345678) = None"
  shows "signup s2n hash users
     (Some (JObj [(''user_id'', JStr ''validUser1''), (''password'', JNum 12345678)])) =
   (users, Threw)"
  using assms
  by (simp add: signup_def body_or_empty_def length_incorrect_number_password
      pattern_incorrect_12345678)

text \<open>
  Claim C3, which the code does not meet when a field is not a string. The claim is that
  validation goes presence, then length, then character pattern, then duplicate, the
  first rule that fails giving the cause of the 400; so a \<^verbatim>\<open>user_id\<close> whose length is
  not between 6 and 20 is answered with \<^verbatim>\<open>Input length is incorrect\<close> and not with the
  cause of the pattern rule. On strings this is what the handler does (lemma
  \<open>signup_order_on_strings\<close>). The \<^verbatim>\<open>user_id\<close> \<^verbatim>\<open>12345\<close> sent as a number, with a valid
  password, passes the length check and is answered with \<^verbatim>\<open>Incorrect character pattern\<close>,
  whatever the store holds.
\<close>

theorem signup_number_user_id_skips_length_rule:
  "signup s2n hash users
     (Some (JObj [(''user_id'', JNum 12345), (''password'', JStr ''Passw0rd!'')])) =
   (users, Response 400 (message_cause ''Account creation failed'' ''Incorrect character pattern''))"
  by (simp add: signup_def body_or_empty_def number_has_no_length pattern_incorrect_12345)

theorem signup_number_user_id_skips_length_rule_witness:
  "signup (\<lambda>s. NaN) demo_hash demo_users
     (Some (JObj [(''user_id'', JNum 12345), (''password'', JStr ''Passw0rd!'')])) =
   (demo_users, Response 400 (message_cause ''Account creation failed'' ''Incorrect character pattern''))"
  by (rule signup_number_user_id_skips_length_rule)

section \<open>Retrieval: failed authentication and the comment field\<close>

text \<open>
  Claim C7. A GET /users/:user_id request is answered 401 with the message
  \<^verbatim>\<open>Authentication failed\<close>, leaving the store as it is, whenever the
  \<^verbatim>\<open>Authorization\<close> header is absent, or does not start with \<^verbatim>\<open>Basic\<close>, or its payload
  does not decode to a string with a colon, or the credentials name no stored record, or
  the password check fails: whatever the \<^verbatim>\<open>user_id\<close> of the path is, stored or not.
\<close>

theorem get_user_failed_authentication:
  assumes "header = None \<or>
           (\<exists>h. header = Some h \<and> \<not> basic_prefix h) \<or>
           (\<exists>h. header = Some h \<and> basic_prefix h \<and>
                (\<forall>raw. decode (trim (dropWhile is_space (drop 5 h))) = Some raw
                       \<longrightarrow> CHR '':'' \<notin> set raw)) \<or>
           (\<exists>uid pw. parseBasicAuth decode header = Some (uid, pw) \<and>
                (users (JStr uid) = None \<or>
                 (\<exists>u. users (JStr uid) = Some u \<and> \<not> compare pw (passwordHash u))))"
  shows "get_user compare decode users header path_user_id =
           (users, Response 401 (message ''Authentication failed''))"
proof -
  have "authUserAsync compare decode users header = None"
    using assms
    by (auto simp: authUserAsync_def parseBasicAuth_no_header parseBasicAuth_not_basic
        parseBasicAuth_no_colon)
  then show ?thesis by (rule get_user_401)
qed

theorem get_user_failed_authentication_witness:
  "get_user demo_compare demo_decode demo_users None ''TaroYamada'' =
     (demo_users, Response 401 (message ''Authentication failed'')) \<and>
   get_user demo_compare demo_decode demo_users (Some ''Bearer abc'') ''TaroYamada'' =
     (demo_users, Response 401 (message ''Authentication failed'')) \<and>
   get_user demo_compare demo_decode demo_users (Some ''Basic bm8gY29sb24gaGVyZQ=='') ''TaroYamada'' =
     (demo_users, Response 401 (message ''Authentication failed'')) \<and>
   get_user demo_compare demo_decode demo_users (Some ''Basic Z2hvc3QxOlBhc3N3MHJkIQ=='') ''nobody'' =
     (demo_users, Response 401 (message ''Authentication failed'')) \<and>
   get_user demo_compare demo_decode demo_users (Some ''Basic VGFyb1lhbWFkYTp3cm9uZw=='') ''TaroYamada'' =
     (demo_users, Response 401 (message ''Authentication failed''))"
proof (intro conjI)
  show "get_user demo_compare demo_decode demo_users None ''TaroYamada'' =
     (demo_users, Response 401 (message ''Authentication failed''))"
    by (rule get_user_failed_authentication, rule disjI1, rule refl)
next
  have "\<not> basic_prefix ''Bearer abc''"
    by code_simp
  then have "\<exists>h. Some ''Bearer abc'' = Some h \<and> \<not> basic_prefix h"
    by blast
  then show "get_user demo_compare demo_decode demo_users (Some ''Bearer abc'') ''TaroYamada'' =
     (demo_users, Response 401 (message ''Authentication failed''))"
    by (rule get_user_failed_authentication [OF disjI2, OF disjI1])
next
  let ?h = "''Basic bm8gY29sb24gaGVyZQ==''"
  have bp: "basic_prefix ?h" by code_simp
  have dec: "demo_decode (trim (dropWhile is_space (drop 5 ?h))) = Some ''no colon here''"
    by code_simp
  have nc: "\<forall>raw. demo_decode (trim (dropWhile is_space (drop 5 ?h))) = Some raw
      \<longrightarrow> CHR '':'' \<notin> set raw"
    unfolding dec by simp
  from bp nc have "\<exists>h. Some ?h = Some h \<and> basic_prefix h \<and>
    (\<forall>raw. demo_decode (trim (dropWhile is_space (drop 5 h))) = Some raw \<longrightarrow> CHR '':'' \<notin> set raw)"
    by blast
  then show "get_user demo_compare demo_decode demo_users (Some ?h) ''TaroYamada'' =
     (demo_users, Response 401 (message ''Authentication failed''))"
    by (rule get_user_failed_authentication [OF disjI2, OF disjI2, OF disjI1])
next
  let ?h = "Some ''Basic Z2hvc3QxOlBhc3N3MHJkIQ==''"
  have "parseBasicAuth demo_decode ?h = Some (''ghost1'', ''Passw0rd!'')" by code_simp
  moreover have "demo_users (JStr ''ghost1'') = None" by (simp add: demo_users_eq)
  ultimately have "\<exists>uid pw. parseBasicAuth demo_decode ?h = Some (uid, pw) \<and>
      (demo_users (JStr uid) = None \<or>
       (\<exists>u. demo_users (JStr uid) = Some u \<and> \<not> demo_compare pw (passwordHash u)))"
    by blast
  then show "get_user demo_compare demo_decode demo_users ?h ''nobody'' =
     (demo_users, Response 401 (message ''Authentication failed''))"
    by (rule get_user_failed_authentication [OF disjI2, OF disjI2, OF disjI2])
next
  let ?h = "Some ''Basic VGFyb1lhbWFkYTp3cm9uZw==''"
  have "parseBasicAuth demo_decode ?h = Some (''TaroYamada'', ''wrong'')" by code_simp
  moreover have "\<exists>u. demo_users (JStr ''TaroYamada'') = Some u \<and> \<not> demo_compare ''wrong'' (passwordHash u)"
    by (simp add: demo_users_eq demo_compare_def)
  ultimately have "\<exists>uid pw. parseBasicAuth demo_decode ?h = Some (uid, pw) \<and>
      (demo_users (JStr uid) = None \<or>
       (\<exists>u. demo_users (JStr uid) = Some u \<and> \<not> demo_compare pw (passwordHash u)))"
    by blast
  then show "get_user demo_compare demo_decode demo_users ?h ''TaroYamada'' =
     (demo_users, Response 401 (message ''Authentication failed''))"
    by (rule get_user_failed_authentication [OF disjI2, OF disjI2, OF disjI2])
qed

text \<open>
  Claim C2, which the code does not meet. The claim is that the \<^verbatim>\<open>comment\<close> field is in
  the response only when the stored comment is present and not empty, and that a record
  signed up without a comment is sent without the field. The handler leaves the field
  out when the stored comment is \<^verbatim>\<open>undefined\<close> or the empty string; signup stores
  \<^verbatim>\<open>comment ?? null\<close>. So after any signup without a comment, retrieval of that record
  sends \<^verbatim>\<open>comment: null\<close>.
\<close>

theorem get_user_sends_null_comment:
  assumes "signup s2n hash users body = (users', Response 200 rb)"
    and "js_get (body_or_empty body) ''user_id'' = Some (JStr uid)"
    and "js_get (body_or_empty body) ''comment'' = None"
    and "authUserAsync compare decode users' header = Some a"
  shows "get_user compare decode users' header uid =
           (users', Response 200
              (JObj [(''message'', JStr ''User details by user_id''),
                     (''user'',
                      JObj [(''user_id'', JStr uid),
                            (''nickname'',
                             (let n = nullish_coalesce (js_get (body_or_empty body) ''nickname'') (JStr uid)
                              in if n = JStr [] then JStr uid else n)),
                            (''comment'', JNull)])]))"
proof -
  from signup_success_shape [OF assms(1)] assms(2,3) obtain h where
    "users' = users(JStr uid \<mapsto> \<lparr>user_id = JStr uid, passwordHash = h,
        nickname = Some (nullish_coalesce (js_get (body_or_empty body) ''nickname'') (JStr uid)),
        comment = Some JNull\<rparr>)"
    by auto
  then have "users' (JStr uid) = Some \<lparr>user_id = JStr uid, passwordHash = h,
        nickname = Some (nullish_coalesce (js_get (body_or_empty body) ''nickname'') (JStr uid)),
        comment = Some JNull\<rparr>"
    by simp
  with assms(4) show ?thesis
    by (simp add: get_user_def effective_nickname_def Let_def)
qed

theorem get_user_sends_null_comment_witness:
  "get_user demo_compare demo_decode demo_users validUser1_header ''validUser1'' =
     (demo_users, Response 200
        (JObj [(''message'', JStr ''User details by user_id''),
               (''user'',
                JObj [(''user_id'', JStr ''validUser1''), (''nickname'', JStr ''validUser1''),
                      (''comment'', JNull)])]))"
proof -
  let ?body = "Some (JObj [(''user_id'', JStr ''validUser1''), (''password'', JStr ''Passw0rd!'')])"
  have uid: "js_get (body_or_empty ?body) ''user_id'' = Some (JStr ''validUser1'')"
    and comm: "js_get (body_or_empty ?body) ''comment'' = None"
    and nick: "js_get (body_or_empty ?body) ''nickname'' = None"
    by (simp_all add: body_or_empty_def)
  from get_user_sends_null_comment [OF demo_signup uid comm validUser1_authenticated]
  show ?thesis unfolding nick by simp
qed

section \<open>Update: the order of the checks and the response\<close>

text \<open>
  Claim C4. The update handler checks in this order: authentication (401), then that the
  \<^verbatim>\<open>user_id\<close> of the path is in the store (404), then that the authenticated user is
  the one of the path (403). So an authenticated update of a \<^verbatim>\<open>user_id\<close> that is not
  stored is answered 404, and once the three checks pass the answer is 400 or 200.
\<close>

theorem patch_user_check_order:
  "(authUserAsync compare decode users header = None \<longrightarrow>
      patch_user compare decode users header path_user_id body =
        (users, Response 401 (message ''Authentication failed''))) \<and>
   (\<forall>a. authUserAsync compare decode users header = Some a \<and> users (JStr path_user_id) = None \<longrightarrow>
      patch_user compare decode users header path_user_id body =
        (users, Response 404 (message ''No user found''))) \<and>
   (\<forall>a u. authUserAsync compare decode users header = Some a \<and>
      users (JStr path_user_id) = Some u \<and> user_id a \<noteq> JStr path_user_id \<longrightarrow>
      patch_user compare decode users header path_user_id body =
        (users, Response 403 (message ''No permission for update''))) \<and>
   (\<forall>a u st rb. authUserAsync compare decode users header = Some a \<and>
      users (JStr path_user_id) = Some u \<and> user_id a = JStr path_user_id \<and>
      snd (patch_user compare decode users header path_user_id body) = Response st rb \<longrightarrow>
      st = 400 \<or> st = 200)"
  by (auto simp: patch_user_def Let_def split: if_splits)

theorem patch_user_check_order_witness:
  "patch_user demo_compare demo_decode demo_users None ''nobody''
     (Some (JObj [(''nickname'', JStr ''Bob'')])) =
     (demo_users, Response 401 (message ''Authentication failed'')) \<and>
   patch_user demo_compare demo_decode demo_users taro_header ''nobody''
     (Some (JObj [(''nickname'', JStr ''Bob'')])) =
     (demo_users, Response 404 (message ''No user found'')) \<and>
   patch_user demo_compare demo_decode demo_users taro_header ''validUser1''
     (Some (JObj [(''nickname'', JStr ''Bob'')])) =
     (demo_users, Response 403 (message ''No permission for update''))"
proof (intro conjI)
  show "patch_user demo_compare demo_decode demo_users None ''nobody''
     (Some (JObj [(''nickname'', JStr ''Bob'')])) =
     (demo_users, Response 401 (message ''Authentication failed''))"
    by (rule patch_user_check_order [THEN conjunct1, rule_format, OF no_header_unauthenticated])
next
  show "patch_user demo_compare demo_decode demo_users taro_header ''nobody''
     (Some (JObj [(''nickname'', JStr ''Bob'')])) =
     (demo_users, Response 404 (message ''No user found''))"
    by (rule patch_user_check_order [THEN conjunct2, THEN conjunct1, rule_format,
          OF conjI, OF taro_authenticated demo_users_nobody])
next
  have "user_id \<lparr>user_id = JStr ''TaroYamada'', passwordHash = ''YT4dwSSaP'',
           nickname = Some (JStr ''TaroYamada''), comment = Some (JStr [])\<rparr> \<noteq> JStr ''validUser1''"
    by simp
  with demo_users_validUser1 have
    "demo_users (JStr ''validUser1'') =
       Some \<lparr>user_id = JStr ''validUser1'', passwordHash = ''!dr0wssaP'',
             nickname = Some (JStr ''validUser1''), comment = Some JNull\<rparr> \<and>
     user_id \<lparr>user_id = JStr ''TaroYamada'', passwordHash = ''YT4dwSSaP'',
           nickname = Some (JStr ''TaroYamada''), comment = Some (JStr [])\<rparr> \<noteq> JStr ''validUser1''"
    by (rule conjI)
  then show "patch_user demo_compare demo_decode demo_users taro_header ''validUser1''
     (Some (JObj [(''nickname'', JStr ''Bob'')])) =
     (demo_users, Response 403 (message ''No permission for update''))"
    by (rule patch_user_check_order [THEN conjunct2, THEN conjunct2, THEN conjunct1, rule_format,
          OF conjI, OF taro_authenticated])
qed

text \<open>
  Claim C5. For the authenticated owner of a stored record, a body with a key
  \<^verbatim>\<open>user_id\<close> or \<^verbatim>\<open>password\<close>, whatever its value, is answered 400 with the cause
  \<^verbatim>\<open>Not updatable user_id and password\<close>, also when it has neither \<^verbatim>\<open>nickname\<close> nor
  \<^verbatim>\<open>comment\<close>; a body with none of the four keys is answered 400 with the cause
  \<^verbatim>\<open>Required nickname or comment\<close>.
\<close>

theorem patch_user_forbidden_keys_first:
  assumes "authUserAsync compare decode users header = Some a"
    and "users (JStr path_user_id) = Some u"
    and "user_id a = JStr path_user_id"
  shows "(hasOwnProperty (body_or_empty body) ''user_id'' \<or>
          hasOwnProperty (body_or_empty body) ''password'' \<longrightarrow>
            patch_user compare decode users header path_user_id body =
              (users, Response 400
                 (message_cause ''User updation failed'' ''Not updatable user_id and password''))) \<and>
         (\<not> hasOwnProperty (body_or_empty body) ''user_id'' \<and>
          \<not> hasOwnProperty (body_or_empty body) ''password'' \<and>
          \<not> hasOwnProperty (body_or_empty body) ''nickname'' \<and>
          \<not> hasOwnProperty (body_or_empty body) ''comment'' \<longrightarrow>
            patch_user compare decode users header path_user_id body =
              (users, Response 400
                 (message_cause ''User updation failed'' ''Required nickname or comment'')))"
proof -
  have own: "hasOwnProperty b k = (js_get b k \<noteq> None)" for b k
    by (cases b) simp_all
  show ?thesis using assms by (simp add: patch_user_def Let_def own)
qed

theorem patch_user_forbidden_keys_first_witness:
  "patch_user demo_compare demo_decode demo_users taro_header ''TaroYamada''
     (Some (JObj [(''user_id'', JNull)])) =
     (demo_users, Response 400
        (message_cause ''User updation failed'' ''Not updatable user_id and password'')) \<and>
   patch_user demo_compare demo_decode demo_users taro_header ''TaroYamada''
     (Some (JObj [(''nickname'', JStr ''Bob''), (''password'', JStr ''Passw0rd!'')])) =
     (demo_users, Response 400
        (message_cause ''User updation failed'' ''Not updatable user_id and password'')) \<and>
   patch_user demo_compare demo_decode demo_users taro_header ''TaroYamada'' (Some (JObj [])) =
     (demo_users, Response 400
        (message_cause ''User updation failed'' ''Required nickname or comment''))"
proof -
  have own: "user_id \<lparr>user_id = JStr ''TaroYamada'', passwordHash = ''YT4dwSSaP'',
            nickname = Some (JStr ''TaroYamada''), comment = Some (JStr [])\<rparr> = JStr ''TaroYamada''"
    by simp
  note inst = patch_user_forbidden_keys_first [OF taro_authenticated demo_users_TaroYamada own]
  have k1: "hasOwnProperty (body_or_empty (Some (JObj [(''user_id'', JNull)]))) ''user_id'' \<or>
            hasOwnProperty (body_or_empty (Some (JObj [(''user_id'', JNull)]))) ''password''"
    by (simp add: body_or_empty_def)
  have k2: "hasOwnProperty (body_or_empty
               (Some (JObj [(''nickname'', JStr ''Bob''), (''password'', JStr ''Passw0rd!'')]))) ''user_id'' \<or>
            hasOwnProperty (body_or_empty
               (Some (JObj [(''nickname'', JStr ''Bob''), (''password'', JStr ''Passw0rd!'')]))) ''password''"
    by (simp add: body_or_empty_def)
  have k3: "\<not> hasOwnProperty (body_or_empty (Some (JObj []))) ''user_id'' \<and>
            \<not> hasOwnProperty (body_or_empty (Some (JObj []))) ''password'' \<and>
            \<not> hasOwnProperty (body_or_empty (Some (JObj []))) ''nickname'' \<and>
            \<not> hasOwnProperty (body_or_empty (Some (JObj []))) ''comment''"
    by (simp add: body_or_empty_def)
  show ?thesis
    by (intro conjI inst [THEN conjunct1, rule_format, OF k1]
        inst [THEN conjunct1, rule_format, OF k2] inst [THEN conjunct2, rule_format, OF k3])
qed

text \<open>
  What a successful update does: the record under the \<^verbatim>\<open>user_id\<close> of the path gets the
  nickname of the body (the record's \<^verbatim>\<open>user_id\<close> when that is the empty string) and
  the comment of the body, each only when its key is there; the response sends the
  \<^verbatim>\<open>user_id\<close>, the effective nickname, and the stored comment (the empty string when
  it is \<^verbatim>\<open>undefined\<close>). This is lemma \<open>patch_user_success_shape\<close>.

  Claim C6, which the code does not meet in its last part. The claim is that the comment
  of the response is the empty string when the comment is unset. A record signed up
  without a comment holds \<^verbatim>\<open>null\<close>, which the handler sends as it is: an update of the
  nickname alone is answered with \<^verbatim>\<open>comment: null\<close>.
\<close>

theorem patch_user_sends_null_comment:
  assumes "signup s2n hash users body = (users', Response 200 rb)"
    and "js_get (body_or_empty body) ''user_id'' = Some (JStr uid)"
    and "js_get (body_or_empty body) ''comment'' = None"
    and "authUserAsync compare decode users' header = Some a"
    and "user_id a = JStr uid"
    and "\<not> text_rejected (Some (JStr nk)) 30"
  shows "\<exists>users''.
           patch_user compare decode users' header uid (Some (JObj [(''nickname'', JStr nk)])) =
             (users'', Response 200
                (JObj [(''message'', JStr ''User successfully updated''),
                       (''user'',
                        JObj [(''user_id'', JStr uid),
                              (''nickname'', if nk = [] then JStr uid else JStr nk),
                              (''comment'', JNull)])]))"
proof -
  from signup_success_shape [OF assms(1)] assms(2,3) obtain h where
    "users' = users(JStr uid \<mapsto> \<lparr>user_id = JStr uid, passwordHash = h,
        nickname = Some (nullish_coalesce (js_get (body_or_empty body) ''nickname'') (JStr uid)),
        comment = Some JNull\<rparr>)"
    by auto
  then have "users' (JStr uid) = Some \<lparr>user_id = JStr uid, passwordHash = h,
        nickname = Some (nullish_coalesce (js_get (body_or_empty body) ''nickname'') (JStr uid)),
        comment = Some JNull\<rparr>"
    by simp
  with assms(4,5,6) show ?thesis
    by (simp add: patch_user_def body_or_empty_def effective_nickname_def Let_def)
qed

theorem patch_user_sends_null_comment_witness:
  "\<exists>users''.
     patch_user demo_compare demo_decode demo_users validUser1_header ''validUser1''
       (Some (JObj [(''nickname'', JStr ''Bob'')])) =
       (users'', Response 200
          (JObj [(''message'', JStr ''User successfully updated''),
                 (''user'',
                  JObj [(''user_id'', JStr ''validUser1''), (''nickname'', JStr ''Bob''),
                        (''comment'', JNull)])]))"
proof -
  let ?body = "Some (JObj [(''user_id'', JStr ''validUser1''), (''password'', JStr ''Passw0rd!'')])"
  have uid: "js_get (body_or_empty ?body) ''user_id'' = Some (JStr ''validUser1'')"
    and comm: "js_get (body_or_empty ?body) ''comment'' = None"
    by (simp_all add: body_or_empty_def)
  have own: "user_id \<lparr>user_id = JStr ''validUser1'', passwordHash = ''!dr0wssaP'',
           nickname = Some (JStr ''validUser1''), comment = Some JNull\<rparr> = JStr ''validUser1''"
    by simp
  have ok: "\<not> text_rejected (Some (JStr ''Bob'')) 30"
    by (simp add: text_rejected_def noCtrl_def ctrl_char_def)
  from patch_user_sends_null_comment [OF demo_signup uid comm validUser1_authenticated own ok]
  show ?thesis by simp
qed

section \<open>Close: the account is gone\<close>

text \<open>
  Claim C8. In a store that a run of the service has produced, an authenticated
  POST /close removes the record of the authenticated user, the one stored under the
  \<^verbatim>\<open>user_id\<close> of the credentials, and is answered 200. In the store it leaves, the same
  header authenticates nobody: retrieval, update and close with it are answered 401.
\<close>

theorem close_account_removes_principal:
  assumes "users = run s2n compare decode Map.empty reqs"
    and "authUserAsync compare decode users header = Some a"
  shows "\<exists>uid pw users'.
     parseBasicAuth decode header = Some (uid, pw) \<and> users (JStr uid) = Some a \<and>
     users' = users(JStr uid := None) \<and>
     close_account compare decode users header =
       (users', Response 200 (message ''Account and user successfully removed'')) \<and>
     authUserAsync compare decode users' header = None \<and>
     (\<forall>p. get_user compare decode users' header p =
        (users', Response 401 (message ''Authentication failed''))) \<and>
     (\<forall>p b. patch_user compare decode users' header p b =
        (users', Response 401 (message ''Authentication failed''))) \<and>
     close_account compare decode users' header =
       (users', Response 401 (message ''Authentication failed''))"
proof -
  have keyed: "keyed_by_user_id users"
    unfolding assms(1) by (rule keyed_run [OF keyed_empty])
  from authenticated_key [OF keyed assms(2)] obtain uid pw where
    cred: "parseBasicAuth decode header = Some (uid, pw)" and
    rec: "users (JStr uid) = Some a" and key: "user_id a = JStr uid"
    by blast
  let ?users' = "users(JStr uid := None)"
  have closed: "close_account compare decode users header =
       (?users', Response 200 (message ''Account and user successfully removed''))"
    using assms(2) key by (simp add: close_account_def)
  have gone: "authUserAsync compare decode ?users' header = None"
    by (rule authUserAsync_absent_key [OF cred]) simp
  from cred rec closed gone get_user_401 [OF gone] patch_user_401 [OF gone] close_account_401 [OF gone]
  show ?thesis by blast
qed

theorem close_account_removes_principal_witness:
  "close_account demo_compare demo_decode demo_users taro_header =
     (demo_users(JStr ''TaroYamada'' := None),
      Response 200 (message ''Account and user successfully removed'')) \<and>
   get_user demo_compare demo_decode (demo_users(JStr ''TaroYamada'' := None)) taro_header
       ''TaroYamada'' =
     (demo_users(JStr ''TaroYamada'' := None), Response 401 (message ''Authentication failed'')) \<and>
   close_account demo_compare demo_decode (demo_users(JStr ''TaroYamada'' := None)) taro_header =
     (demo_users(JStr ''TaroYamada'' := None), Response 401 (message ''Authentication failed''))"
proof -
  from close_account_removes_principal [OF demo_users_def taro_authenticated]
  obtain uid pw users' where
    cred: "parseBasicAuth demo_decode taro_header = Some (uid, pw)" and
    st: "users' = demo_users(JStr uid := None)" and
    closed: "close_account demo_compare demo_decode demo_users taro_header =
       (users', Response 200 (message ''Account and user successfully removed''))" and
    get: "\<forall>p. get_user demo_compare demo_decode users' taro_header p =
        (users', Response 401 (message ''Authentication failed''))" and
    again: "close_account demo_compare demo_decode users' taro_header =
       (users', Response 401 (message ''Authentication failed''))"
    by blast
  from cred have "uid = ''TaroYamada''" by (simp add: taro_credentials)
  with st closed get again show ?thesis by simp
qed

section \<open>What the handlers do to the store\<close>

text \<open>
  Claim C9. A signup or an update that is answered 400 leaves the store as it was.
\<close>

theorem bad_request_leaves_store:
  "(\<forall>rb. snd (signup s2n hash users body) = Response 400 rb \<longrightarrow>
       fst (signup s2n hash users body) = users) \<and>
   (\<forall>rb. snd (patch_user compare decode users header path_user_id body) = Response 400 rb \<longrightarrow>
       fst (patch_user compare decode users header path_user_id body) = users)"
proof (intro conjI allI impI)
  fix rb assume "snd (signup s2n hash users body) = Response 400 rb"
  then show "fst (signup s2n hash users body) = users"
    by (auto simp: signup_def Let_def split: option.splits bool.splits if_splits)
next
  fix rb assume "snd (patch_user compare decode users header path_user_id body) = Response 400 rb"
  then show "fst (patch_user compare decode users header path_user_id body) = users"
    by (rule patch_user_400_store)
qed

theorem bad_request_leaves_store_witness:
  "snd (signup (\<lambda>s. NaN) demo_hash demo_users
          (Some (JObj [(''user_id'', JStr ''TaroYamada''), (''password'', JStr ''PaSSwd4TY'')]))) =
     Response 400 (message_cause ''Account creation failed'' ''Already same user_id is used'') \<and>
   fst (signup (\<lambda>s. NaN) demo_hash demo_users
          (Some (JObj [(''user_id'', JStr ''TaroYamada''), (''password'', JStr ''PaSSwd4TY'')]))) =
     demo_users \<and>
   snd (patch_user demo_compare demo_decode demo_users taro_header ''TaroYamada''
          (Some (JObj [(''nickname'', JNum 7)]))) =
     Response 400 (message_cause ''User updation failed''
        ''String length limit exceeded or containing invalid characters'') \<and>
   fst (patch_user demo_compare demo_decode demo_users taro_header ''TaroYamada''
          (Some (JObj [(''nickname'', JNum 7)]))) =
     demo_users"
proof -
  let ?b = "Some (JObj [(''user_id'', JStr ''TaroYamada''), (''password'', JStr ''PaSSwd4TY'')])"
  let ?p = "Some (JObj [(''nickname'', JNum 7)])"
  have g: "js_get (body_or_empty ?b) ''user_id'' = Some (JStr ''TaroYamada'')"
    "js_get (body_or_empty ?b) ''password'' = Some (JStr ''PaSSwd4TY'')"
    by (simp_all add: body_or_empty_def)
  have s: "snd (signup (\<lambda>s. NaN) demo_hash demo_users ?b) =
     Response 400 (message_cause ''Account creation failed'' ''Already same user_id is used'')"
    unfolding signup_strings [OF g]
    by (simp add: demo_users_TaroYamada alnum_char_def visible_char_def)
  have p: "snd (patch_user demo_compare demo_decode demo_users taro_header ''TaroYamada'' ?p) =
     Response 400 (message_cause ''User updation failed''
        ''String length limit exceeded or containing invalid characters'')"
    by (simp add: patch_user_def taro_authenticated demo_users_TaroYamada body_or_empty_def
        text_rejected_def)
  from s p
    bad_request_leaves_store [THEN conjunct1, rule_format, OF s]
    bad_request_leaves_store [THEN conjunct2, rule_format, OF p]
  show ?thesis by (intro conjI)
qed

text \<open>
  Claim C10. In a store that a run of the service has produced, every record is stored
  under its own \<^verbatim>\<open>user_id\<close>, and each handler changes at most one entry: signup adds
  a record under the \<^verbatim>\<open>user_id\<close> of the request, which was not in the store; retrieval
  changes nothing; an update replaces the record under the \<^verbatim>\<open>user_id\<close> of the path,
  keeping its \<^verbatim>\<open>user_id\<close> and its password hash; close removes the entry under the
  \<^verbatim>\<open>user_id\<close> of the credentials. All other entries are those of the store before.
\<close>

theorem operations_touch_one_record:
  assumes "users = run s2n compare decode Map.empty reqs"
  shows "keyed_by_user_id users \<and>
    (fst (signup s2n hash users body) = users \<or>
     (\<exists>uid r. js_get (body_or_empty body) ''user_id'' = Some uid \<and> users uid = None \<and>
        fst (signup s2n hash users body) = users(uid \<mapsto> r) \<and> user_id r = uid)) \<and>
    fst (get_user compare decode users header k) = users \<and>
    (fst (patch_user compare decode users header k body) = users \<or>
     (\<exists>u u'. users (JStr k) = Some u \<and>
        fst (patch_user compare decode users header k body) = users(JStr k \<mapsto> u') \<and>
        user_id u' = JStr k \<and> passwordHash u' = passwordHash u)) \<and>
    (fst (close_account compare decode users header) = users \<or>
     (\<exists>uid pw a. parseBasicAuth decode header = Some (uid, pw) \<and> users (JStr uid) = Some a \<and>
        fst (close_account compare decode users header) = users(JStr uid := None)))"
proof -
  have keyed: "keyed_by_user_id users"
    unfolding assms by (rule keyed_run [OF keyed_empty])
  have patch: "fst (patch_user compare decode users header k body) = users \<or>
     (\<exists>u u'. users (JStr k) = Some u \<and>
        fst (patch_user compare decode users header k body) = users(JStr k \<mapsto> u') \<and>
        user_id u' = JStr k \<and> passwordHash u' = passwordHash u)"
    using patch_user_store_cases [of compare decode users header k body] keyed_lookup [OF keyed]
    by fastforce
  have close: "fst (close_account compare decode users header) = users \<or>
     (\<exists>uid pw a. parseBasicAuth decode header = Some (uid, pw) \<and> users (JStr uid) = Some a \<and>
        fst (close_account compare decode users header) = users(JStr uid := None))"
    using close_account_store_cases [of compare decode users header] authenticated_key [OF keyed]
    by fastforce
  from keyed signup_store_cases [of s2n hash users body] get_user_store patch close
  show ?thesis by blast
qed

theorem operations_touch_one_record_witness:
  "keyed_by_user_id demo_users \<and>
   (fst (signup (\<lambda>s. NaN) demo_hash demo_users
           (Some (JObj [(''user_id'', JStr ''TaroYamada''), (''password'', JStr ''PaSSwd4TY'')]))) =
      demo_users \<or>
    (\<exists>uid r.
        js_get (body_or_empty
           (Some (JObj [(''user_id'', JStr ''TaroYamada''), (''password'', JStr ''PaSSwd4TY'')])))
          ''user_id'' = Some uid \<and>
        demo_users uid = None \<and>
        fst (signup (\<lambda>s. NaN) demo_hash demo_users
               (Some (JObj [(''user_id'', JStr ''TaroYamada''), (''password'', JStr ''PaSSwd4TY'')]))) =
          demo_users(uid \<mapsto> r) \<and>
        user_id r = uid)) \<and>
   fst (get_user demo_compare demo_decode demo_users taro_header ''validUser1'') = demo_users \<and>
   fst (close_account demo_compare demo_decode demo_users taro_header) =
     demo_users(JStr ''TaroYamada'' := None)"
proof -
  note inst = operations_touch_one_record [OF demo_users_def, of demo_hash
      "Some (JObj [(''user_id'', JStr ''TaroYamada''), (''password'', JStr ''PaSSwd4TY'')])"
      taro_header "''validUser1''"]
  from inst have
    close: "fst (close_account demo_compare demo_decode demo_users taro_header) = demo_users \<or>
      (\<exists>uid pw a. parseBasicAuth demo_decode taro_header = Some (uid, pw) \<and>
         demo_users (JStr uid) = Some a \<and>
         fst (close_account demo_compare demo_decode demo_users taro_header) =
           demo_users(JStr uid := None))"
    by blast
  have changed: "fst (close_account demo_compare demo_decode demo_users taro_header) \<noteq> demo_users"
  proof
    assume "fst (close_account demo_compare demo_decode demo_users taro_header) = demo_users"
    then have "fst (close_account demo_compare demo_decode demo_users taro_header)
        (JStr ''TaroYamada'') = demo_users (JStr ''TaroYamada'')"
      by simp
    then show False
      by (simp add: close_account_def taro_authenticated demo_users_TaroYamada)
  qed
  with close obtain uid pw where
    "parseBasicAuth demo_decode taro_header = Some (uid, pw)" and
    "fst (close_account demo_compare demo_decode demo_users taro_header) =
       demo_users(JStr uid := None)"
    by blast
  then have "fst (close_account demo_compare demo_decode demo_users taro_header) =
       demo_users(JStr ''TaroYamada'' := None)"
    by (simp add: taro_credentials)
  with inst show ?thesis by blast
qed

end
